theory Spec2Isabelle
  imports Complex_Main
begin

section \<open>Numbers of the source\<close>

text \<open>
  The source is Python. Its integers are unbounded and are modelled by \<open>int\<close>. Its floats
  are modelled by \<open>real\<close>. Outside the depletion of ledger items by production every
  arithmetic operation is taken as exact, so the rounding of IEEE double arithmetic is not
  represented there. \<open>int(x)\<close> on a float truncates toward zero and
  \<open>round(x)\<close> rounds to the nearest integer, a tie going to the even neighbour.
\<close>

definition py_int :: "real \<Rightarrow> int" where
  "py_int x = (if 0 \<le> x then \<lfloor>x\<rfloor> else \<lceil>x\<rceil>)"

definition py_round :: "real \<Rightarrow> int" where
  "py_round x =
     (let f = \<lfloor>x\<rfloor>; d = x - of_int f
      in if d < 1 / 2 then f
         else if 1 / 2 < d then f + 1
         else if even f then f else f + 1)"

text \<open>
  Where a float is rounded to an integer the exact value does not stand for the double:
  \<open>round\<close> jumps at the halves, and 9 * 1.2 * 1.25 is 13.5 in exact arithmetic and
  13.499999999999998 in doubles. There every operation is followed by \<open>fl\<close>, the rounding
  of a real to the nearest IEEE double, ties to the even mantissa. \<open>binade\<close> looks for
  the exponent \<open>e\<close> with \<open>2 ^ e \<le> x < 2 ^ (e + 1)\<close>, starting from a guess and stepping
  by one; 1100 steps from 0 reach every exponent of a double. Doubles have 53 mantissa bits
  and no exponent below -1022. A result of magnitude 2 ^ 1024 or more, which is infinite as
  a double, is outside the model.
\<close>

definition pow2 :: "int \<Rightarrow> real" where
  "pow2 e = (if 0 \<le> e then 2 ^ nat e else 1 / 2 ^ nat (- e))"

fun binade :: "nat \<Rightarrow> real \<Rightarrow> int \<Rightarrow> int" where
  "binade 0 x e = e"
| "binade (Suc n) x e =
     (if pow2 (e + 1) \<le> x then binade n x (e + 1)
      else if x < pow2 e then binade n x (e - 1)
      else e)"

definition fl :: "real \<Rightarrow> real" where
  "fl x =
     (if x = 0 then 0
      else (let e = max (binade 1100 \<bar>x\<bar> 0) (- 1022);
                ulp = pow2 (e - 52)
            in of_int (py_round (x / ulp)) * ulp))"

section \<open>Unit conversion (app.py, lines 10 to 96)\<close>

definition GALLONS_PER_CASE :: real where
  "GALLONS_PER_CASE = 127 / 100"

definition UNITS_PER_CASE :: int where
  "UNITS_PER_CASE = 24"

definition DEFAULT_TAX_RATE :: real where
  "DEFAULT_TAX_RATE = 135 / 10"

definition calculate_total_cases_from_stock :: "int \<Rightarrow> int \<Rightarrow> int \<Rightarrow> real" where
  "calculate_total_cases_from_stock singles bottled_s bottled_i =
     of_int (singles + bottled_s * UNITS_PER_CASE + bottled_i * UNITS_PER_CASE)
       / of_int UNITS_PER_CASE"

text \<open>The second argument is the source's parameter \<open>proof\<close>.\<close>

definition calculate_proof_gallons :: "real \<Rightarrow> real \<Rightarrow> real" where
  "calculate_proof_gallons wine_gallons proof_v = wine_gallons * (proof_v / 100)"

text \<open>
  \<open>calculate_excise_tax(proof_gallons, tax_rate=13.50)\<close>: the rate is a parameter; a call
  that leaves it out passes \<open>DEFAULT_TAX_RATE\<close>.
\<close>

definition calculate_excise_tax :: "real \<Rightarrow> real \<Rightarrow> real" where
  "calculate_excise_tax proof_gallons_v tax_rate = proof_gallons_v * tax_rate"

definition calculate_density_from_abv :: "real \<Rightarrow> real" where
  "calculate_density_from_abv abv_v =
     (let abv_fraction = abv_v / 100;
          density_g_ml = (abv_fraction * (789 / 1000)) + ((1 - abv_fraction) * 1)
      in density_g_ml * (8345 / 1000))"

text \<open>
  A float division by zero raises \<open>ZeroDivisionError\<close> in Python; the density is zero
  at one ABV value only, far outside 0 to 100, and the raise is a branch of the model.
\<close>

datatype py_error = ZeroDivisionError | NotFoundError

definition calculate_gallons_from_weight :: "real \<Rightarrow> real \<Rightarrow> py_error + real" where
  "calculate_gallons_from_weight weight abv_v =
     (if weight = 0 then Inr 0
      else (let density = calculate_density_from_abv abv_v
            in if density = 0 then Inl ZeroDivisionError else Inr (weight / density)))"

definition calculate_weight_from_gallons :: "real \<Rightarrow> real \<Rightarrow> real" where
  "calculate_weight_from_gallons wine_gallons_v abv_v =
     (if wine_gallons_v = 0 then 0 else wine_gallons_v * calculate_density_from_abv abv_v)"

section \<open>Finished-good metrics (app.py, lines 16 to 34)\<close>

record fg_metrics =
  current_stock :: int
  proof_gallons :: real
  excise_tax_due :: real

definition derive_finished_good_metrics :: "int \<Rightarrow> int \<Rightarrow> int \<Rightarrow> real \<Rightarrow> fg_metrics" where
  "derive_finished_good_metrics singles bottled_s bottled_i abv_v =
     (let total_cases = calculate_total_cases_from_stock singles bottled_s bottled_i
      in if 0 < abv_v
         then (let total_gallons = total_cases * GALLONS_PER_CASE;
                   proof_v = abv_v * 2;
                   pg = calculate_proof_gallons total_gallons proof_v;
                   tax = calculate_excise_tax pg DEFAULT_TAX_RATE
               in \<lparr>current_stock = py_int total_cases, proof_gallons = pg,
                    excise_tax_due = tax\<rparr>)
         else \<lparr>current_stock = py_int total_cases, proof_gallons = 0,
                excise_tax_due = 0\<rparr>)"

section \<open>Inventory ledger: saving edited rows (app.py, lines 2507 to 2552)\<close>

text \<open>
  A row of table \<open>inventory_tracking\<close>. The row's key \<open>id\<close> is the key of the store.
\<close>

record ledger_item =
  item_name :: string
  units_per_case :: int
  started :: int
  depleted :: int
  added :: int
  units_remaining :: int
  cases_remaining :: int

text \<open>
  A row of the edited data frame, after the source has read its cells with \<open>int(...)\<close>:
  columns ID, Item Name, Units per Case, Started, Depleted and Cases Remaining. The column
  Units Remaining is shown but not read back.
\<close>

record edit_row =
  row_id :: int
  row_item_name :: string
  row_units_per_case :: int
  row_started :: int
  row_depleted :: int
  row_cases_remaining :: int

type_synonym ledger_store = "int \<rightharpoonup> ledger_item"

text \<open>
  The body of the loop over the edited rows, from the detection of what changed to the
  record written back with \<open>update\<close>. Python's \<open>%\<close> with a positive right operand is
  \<open>mod\<close> on \<open>int\<close>; \<open>int(a / b)\<close> divides as floats and truncates.
\<close>

definition reconcile_ledger_edit :: "ledger_item \<Rightarrow> edit_row \<Rightarrow> ledger_item" where
  "reconcile_ledger_edit current_item row =
     (let units_per_case_v = row_units_per_case row;
          started_v = row_started row;
          depleted_v = row_depleted row;
          new_cases_remaining = row_cases_remaining row;
          current_started = started current_item;
          current_depleted = depleted current_item;
          current_cases = cases_remaining current_item;
          current_units_remaining = units_remaining current_item;
          current_added = added current_item;
          started_changed = (started_v \<noteq> current_started);
          depleted_changed = (depleted_v \<noteq> current_depleted);
          cases_changed = (new_cases_remaining \<noteq> current_cases)
      in if cases_changed \<and> \<not> (started_changed \<or> depleted_changed)
         then (let leftover_units =
                     (if 0 < units_per_case_v
                      then current_units_remaining mod units_per_case_v else 0);
                   units_remaining_v = (new_cases_remaining * units_per_case_v) + leftover_units;
                   added_v = units_remaining_v - started_v + depleted_v;
                   cases_remaining_v = new_cases_remaining
               in \<lparr>item_name = row_item_name row, units_per_case = units_per_case_v,
                    started = started_v, depleted = depleted_v, added = added_v,
                    units_remaining = units_remaining_v,
                    cases_remaining = cases_remaining_v\<rparr>)
         else (let added_v = current_added;
                   units_remaining_v = started_v - depleted_v + added_v;
                   cases_remaining_v =
                     (if 0 < units_per_case_v
                      then py_int (of_int units_remaining_v / of_int units_per_case_v) else 0)
               in \<lparr>item_name = row_item_name row, units_per_case = units_per_case_v,
                    started = started_v, depleted = depleted_v, added = added_v,
                    units_remaining = units_remaining_v,
                    cases_remaining = cases_remaining_v\<rparr>))"

text \<open>
  One row of the save loop against the store. The source reads the fields of the row it
  gets for the ID without a test, so an ID with no row ends the handler with an exception.
\<close>

definition save_row :: "ledger_store \<Rightarrow> edit_row \<Rightarrow> py_error + ledger_store" where
  "save_row store row =
     (case store (row_id row) of
        None \<Rightarrow> Inl NotFoundError
      | Some current_item \<Rightarrow>
          Inr (store(row_id row \<mapsto> reconcile_ledger_edit current_item row)))"

text \<open>
  The loop \<open>for idx, row in edited_df.iterrows()\<close>. An exception leaves the rows written
  so far in the store, so the error carries the store at that moment.
\<close>

fun save_all_changes ::
  "ledger_store \<Rightarrow> edit_row list \<Rightarrow> (py_error \<times> ledger_store) + ledger_store" where
  "save_all_changes store [] = Inr store"
| "save_all_changes store (row # rows) =
     (case save_row store row of
        Inl e \<Rightarrow> Inl (e, store)
      | Inr store' \<Rightarrow> save_all_changes store' rows)"

definition ledger_invariant :: "ledger_item \<Rightarrow> bool" where
  "ledger_invariant it = (units_remaining it = started it - depleted it + added it)"

section \<open>Production recording: depletion of ledger items (app.py, lines 2819 to 2865)\<close>

record production_recipe =
  finished_good_id :: int
  inventory_item_id :: int
  packaging_type :: string
  qty_per_case :: real
  wastage_factor :: real

text \<open>The entry appended to \<open>inventory_updates_made\<close> for a depleted item.\<close>

record inventory_update =
  upd_item :: string
  upd_depletion :: int
  upd_units_remaining :: int
  upd_cases_remaining :: int


text \<open>
  The depletion of one recipe, \<open>int(round(cases_produced * qty_per_case *
  (1 + wastage_factor)))\<close>. The two recipe fields are doubles and the number of cases is
  an integer, so Python turns the integer into a double and rounds after each of the two
  products and after the sum, from left to right; \<open>round\<close> then takes the double to the
  nearest integer.
\<close>

definition depletion_int :: "int \<Rightarrow> production_recipe \<Rightarrow> int" where
  "depletion_int cases_produced recipe =
     (let depletion = fl (fl (fl (of_int cases_produced) * qty_per_case recipe)
                            * fl (1 + wastage_factor recipe))
      in py_round depletion)"

text \<open>
  The body of \<open>for recipe in production_recipes\<close> for an item that was found; the three
  fields written back are \<open>depleted\<close>, \<open>units_remaining\<close> and \<open>cases_remaining\<close>.
\<close>

definition deplete_item :: "ledger_item \<Rightarrow> int \<Rightarrow> production_recipe \<Rightarrow> ledger_item" where
  "deplete_item inventory_item cases_produced recipe =
     (let new_depleted = depleted inventory_item + depletion_int cases_produced recipe;
          new_units_remaining = started inventory_item - new_depleted + added inventory_item;
          new_cases_remaining =
            (if 0 < units_per_case inventory_item
             then py_int (of_int new_units_remaining / of_int (units_per_case inventory_item))
             else 0)
      in inventory_item\<lparr>depleted := new_depleted, units_remaining := new_units_remaining,
           cases_remaining := new_cases_remaining\<rparr>)"

text \<open>
  The loop, with the store and the list \<open>inventory_updates_made\<close> as it goes.
  \<open>db["inventory_tracking"].get\<close> raises \<open>NotFoundError\<close> for a key with no row, as in
  the save loop above; the test \<open>if not inventory_item: continue\<close> under it only ever sees
  a row that was found, and a found row is a dictionary that is not empty. So a recipe
  whose item is not stored ends the loop with the exception, the items written so far
  staying written. The item is read from the store again for every recipe, so two recipes
  of one item add up. Nothing in the loop compares the depletion with the stock.
\<close>

fun deplete_inventory ::
  "ledger_store \<Rightarrow> int \<Rightarrow> inventory_update list \<Rightarrow> production_recipe list
     \<Rightarrow> (py_error \<times> ledger_store \<times> inventory_update list)
         + (ledger_store \<times> inventory_update list)" where
  "deplete_inventory store cases_produced inventory_updates_made [] =
     Inr (store, inventory_updates_made)"
| "deplete_inventory store cases_produced inventory_updates_made (recipe # recipes) =
     (case store (inventory_item_id recipe) of
        None \<Rightarrow> Inl (NotFoundError, store, inventory_updates_made)
      | Some inventory_item \<Rightarrow>
          (let new_item = deplete_item inventory_item cases_produced recipe;
               u = \<lparr>upd_item = item_name inventory_item,
                     upd_depletion = depletion_int cases_produced recipe,
                     upd_units_remaining = units_remaining new_item,
                     upd_cases_remaining = cases_remaining new_item\<rparr>
           in deplete_inventory (store(inventory_item_id recipe \<mapsto> new_item))
                cases_produced (inventory_updates_made @ [u]) recipes))"


section \<open>Batch production (app.py, lines 2040 to 2191)\<close>

text \<open>
  Rows of tables \<open>bulk_spirits\<close>, \<open>batches\<close>, \<open>batch_recipes\<close> and
  \<open>batch_production_log\<close>, with the columns the handler reads or writes. The fields are
  prefixed, since several tables have columns \<open>abv\<close> and \<open>proof_gallons\<close>. A row
  read from the store carries every column, so the defaults of \<open>.get\<close> never apply. The
  column \<open>last_updated\<close>, a time stamp, is left out.
\<close>

record bulk_spirit =
  sp_name :: string
  sp_proof :: real
  sp_abv :: real
  sp_weight_lbs :: real
  sp_wine_gallons :: real
  sp_proof_gallons :: real

record batch =
  b_name :: string
  b_gallons :: real
  b_bottled_gallons :: real
  b_ending :: real
  b_abv :: real
  b_proof_gallons :: real

record batch_recipe =
  r_batch_id :: int
  r_bulk_spirit_id :: "int option"
  r_ingredient_name :: string
  r_percentage :: real

record batch_log_entry =
  l_production_date :: string
  l_batch_id :: int
  l_batch_name :: string
  l_weight_produced_lbs :: real
  l_gallons_produced :: real
  l_abv :: real
  l_proof_gallons :: real
  l_notes :: string

record db_state =
  bulk_spirits :: "int \<rightharpoonup> bulk_spirit"
  batches :: "int \<rightharpoonup> batch"
  batch_recipes :: "batch_recipe list"
  batch_production_log :: "batch_log_entry list"

text \<open>
  \<open>if recipe.get("bulk_spirit_id")\<close> holds for an id that is neither \<open>None\<close> nor 0.
\<close>

definition spirit_ref :: "batch_recipe \<Rightarrow> int option" where
  "spirit_ref recipe =
     (case r_bulk_spirit_id recipe of
        None \<Rightarrow> None
      | Some i \<Rightarrow> if i = 0 then None else Some i)"

text \<open>
  The two nested tests of every loop over the recipes: the recipe names a spirit, and the
  row looked up for it is there (\<open>if spirit:\<close>). \<open>db["bulk_spirits"].get\<close> raises
  \<open>NotFoundError\<close> for a key with no row, and the page looks every such spirit up while it
  draws the recipe of the batch, before the form; \<open>produce_batch\<close> below has that raise as
  its own branch, so in the loops of the form every spirit that a recipe names is found.
\<close>

definition lookup_spirit :: "(int \<rightharpoonup> bulk_spirit) \<Rightarrow> batch_recipe \<Rightarrow> bulk_spirit option" where
  "lookup_spirit spirits recipe =
     (case spirit_ref recipe of None \<Rightarrow> None | Some i \<Rightarrow> spirits i)"

text \<open>
  The loop that draws the recipe summary (lines 2052 to 2059): it comes to its end when
  every spirit that a recipe names has a row, and raises otherwise.
\<close>

fun spirits_found :: "(int \<rightharpoonup> bulk_spirit) \<Rightarrow> batch_recipe list \<Rightarrow> bool" where
  "spirits_found spirits [] = True"
| "spirits_found spirits (recipe # recipes) =
     (case spirit_ref recipe of
        None \<Rightarrow> spirits_found spirits recipes
      | Some i \<Rightarrow>
          (case spirits i of
             None \<Rightarrow> False
           | Some spirit \<Rightarrow> spirits_found spirits recipes))"

text \<open>The loop that sets \<open>can_produce\<close>, leaving at the first spirit that is short.\<close>

fun can_produce :: "(int \<rightharpoonup> bulk_spirit) \<Rightarrow> real \<Rightarrow> batch_recipe list \<Rightarrow> bool" where
  "can_produce spirits weight_to_produce [] = True"
| "can_produce spirits weight_to_produce (recipe # recipes) =
     (case lookup_spirit spirits recipe of
        None \<Rightarrow> can_produce spirits weight_to_produce recipes
      | Some spirit \<Rightarrow>
          (let depletion_weight = weight_to_produce * (r_percentage recipe / 100)
           in if sp_weight_lbs spirit < depletion_weight then False
              else can_produce spirits weight_to_produce recipes))"

text \<open>The loop that adds up \<open>total_alcohol_weight\<close>, started at 0.\<close>

fun total_alcohol_weight ::
  "(int \<rightharpoonup> bulk_spirit) \<Rightarrow> real \<Rightarrow> real \<Rightarrow> batch_recipe list \<Rightarrow> real" where
  "total_alcohol_weight spirits weight_to_produce acc [] = acc"
| "total_alcohol_weight spirits weight_to_produce acc (recipe # recipes) =
     (case lookup_spirit spirits recipe of
        None \<Rightarrow> total_alcohol_weight spirits weight_to_produce acc recipes
      | Some spirit \<Rightarrow>
          (let ingredient_weight = weight_to_produce * (r_percentage recipe / 100);
               alcohol_content = ingredient_weight * (sp_abv spirit / 100)
           in total_alcohol_weight spirits weight_to_produce (acc + alcohol_content) recipes))"

definition batch_abv :: "(int \<rightharpoonup> bulk_spirit) \<Rightarrow> real \<Rightarrow> batch_recipe list \<Rightarrow> real" where
  "batch_abv spirits weight_to_produce recipes =
     (if 0 < weight_to_produce
      then (total_alcohol_weight spirits weight_to_produce 0 recipes / weight_to_produce) * 100
      else 0)"

text \<open>
  The loop that depletes the bulk spirits. Each spirit is read from the store again, so
  two recipes of one spirit add up. An exception leaves the spirits written so far in the
  store, so the error carries the store at that moment.
\<close>

fun deplete_spirits ::
  "(int \<rightharpoonup> bulk_spirit) \<Rightarrow> real \<Rightarrow> batch_recipe list
     \<Rightarrow> (py_error \<times> (int \<rightharpoonup> bulk_spirit)) + (int \<rightharpoonup> bulk_spirit)" where
  "deplete_spirits spirits weight_to_produce [] = Inr spirits"
| "deplete_spirits spirits weight_to_produce (recipe # recipes) =
     (case spirit_ref recipe of
        None \<Rightarrow> deplete_spirits spirits weight_to_produce recipes
      | Some i \<Rightarrow>
          (case spirits i of
             None \<Rightarrow> deplete_spirits spirits weight_to_produce recipes
           | Some spirit \<Rightarrow>
               (let depletion_weight = weight_to_produce * (r_percentage recipe / 100);
                    new_weight = sp_weight_lbs spirit - depletion_weight
                in case calculate_gallons_from_weight new_weight (sp_abv spirit) of
                     Inl e \<Rightarrow> Inl (e, spirits)
                   | Inr new_gallons \<Rightarrow>
                       (let new_proof_gallons =
                              calculate_proof_gallons new_gallons (sp_proof spirit)
                        in deplete_spirits
                             (spirits(i \<mapsto> spirit\<lparr>sp_weight_lbs := new_weight,
                                sp_wine_gallons := new_gallons,
                                sp_proof_gallons := new_proof_gallons\<rparr>))
                             weight_to_produce recipes))))"

datatype blend_status = NoSuchBatch | NoRecipe | NotSubmitted | Raised py_error | Produced

text \<open>
  One run of the page of tab Produce Batch, for the batch with key \<open>bid\<close> and the values
  of the form's fields, returning the store as the run leaves it. With no recipe the page
  only warns. The handler is the body of
  \<open>if st.form_submit_button(..., disabled=not can_produce):\<close> and has no test of
  \<open>can_produce\<close> of its own: the one use of \<open>can_produce\<close> is the argument \<open>disabled\<close>
  of the button, and the body runs whenever the call returns true. What the call returns
  is the widget library's, which is not part of the source, so it is the parameter
  \<open>form_submit_button\<close>, from the value of \<open>disabled\<close> to the value returned in this
  run. The weight is a field of the same form, so its value reaches the script only in the
  run that receives the press, and \<open>can_produce\<close> is computed from it in that run.
\<close>

definition produce_batch ::
  "(bool \<Rightarrow> bool) \<Rightarrow> db_state \<Rightarrow> int \<Rightarrow> real \<Rightarrow> string \<Rightarrow> string
     \<Rightarrow> blend_status \<times> db_state" where
  "produce_batch form_submit_button db bid weight_to_produce production_date notes_v =
     (case batches db bid of
        None \<Rightarrow> (NoSuchBatch, db)
      | Some selected_batch \<Rightarrow>
          (let recipes = filter (\<lambda>r. r_batch_id r = bid) (batch_recipes db)
           in if recipes = [] then (NoRecipe, db)
              else if \<not> spirits_found (bulk_spirits db) recipes
              then (Raised NotFoundError, db)
              else if \<not> form_submit_button
                           (\<not> can_produce (bulk_spirits db) weight_to_produce recipes)
              then (NotSubmitted, db)
              else
                (let batch_abv_v = batch_abv (bulk_spirits db) weight_to_produce recipes
                 in case calculate_gallons_from_weight weight_to_produce batch_abv_v of
                      Inl e \<Rightarrow> (Raised e, db)
                    | Inr batch_gallons \<Rightarrow>
                        (let proof_v = batch_abv_v * 2;
                             proof_gallons_v = calculate_proof_gallons batch_gallons proof_v
                         in case deplete_spirits (bulk_spirits db) weight_to_produce recipes of
                              Inl (e, spirits') \<Rightarrow> (Raised e, db\<lparr>bulk_spirits := spirits'\<rparr>)
                            | Inr spirits' \<Rightarrow>
                                (let current_gallons = b_gallons selected_batch;
                                     current_weight_lbs =
                                       calculate_weight_from_gallons current_gallons
                                         (b_abv selected_batch);
                                     new_total_weight = current_weight_lbs + weight_to_produce
                                 in case calculate_gallons_from_weight new_total_weight
                                           batch_abv_v of
                                      Inl e \<Rightarrow> (Raised e, db\<lparr>bulk_spirits := spirits'\<rparr>)
                                    | Inr new_total_gallons \<Rightarrow>
                                        (let new_proof_gallons =
                                               calculate_proof_gallons new_total_gallons proof_v
                                         in (Produced,
                                             db\<lparr>bulk_spirits := spirits',
                                               batches := (batches db)(bid \<mapsto>
                                                 selected_batch\<lparr>b_gallons := new_total_gallons,
                                                   b_ending := new_total_gallons
                                                     - b_bottled_gallons selected_batch,
                                                   b_abv := batch_abv_v,
                                                   b_proof_gallons := new_proof_gallons\<rparr>),
                                               batch_production_log :=
                                                 batch_production_log db @
                                                 [\<lparr>l_production_date = production_date,
                                                   l_batch_id = bid,
                                                   l_batch_name = b_name selected_batch,
                                                   l_weight_produced_lbs = weight_to_produce,
                                                   l_gallons_produced = batch_gallons,
                                                   l_abv = batch_abv_v,
                                                   l_proof_gallons = proof_gallons_v,
                                                   l_notes = notes_v\<rparr>]\<rparr>)))))))"

text \<open>
  Two widgets for the examples. The first reports a press exactly when the button is drawn
  enabled. The second reports the press whatever \<open>disabled\<close> is in the run that receives
  it: the button was enabled when it was pressed, in the run before.
\<close>

definition pressed_when_enabled :: "bool \<Rightarrow> bool" where
  "pressed_when_enabled disabled = (\<not> disabled)"

definition pressed_regardless :: "bool \<Rightarrow> bool" where
  "pressed_regardless disabled = True"

text \<open>
  The spec's words for the ABV a batch should carry, not the source's: the average of the
  ABV of all production runs of the batch, each weighted by the weight it produced, read
  from the production log of the batch.
\<close>

definition spec_lifetime_weighted_abv :: "batch_log_entry list \<Rightarrow> int \<Rightarrow> real" where
  "spec_lifetime_weighted_abv entries bid =
     (let runs = filter (\<lambda>e. l_batch_id e = bid) entries;
          total_weight = sum_list (map l_weight_produced_lbs runs)
      in if total_weight = 0 then 0
         else sum_list (map (\<lambda>e. l_weight_produced_lbs e * l_abv e) runs) / total_weight)"

section \<open>Example data\<close>

text \<open>
  A ledger item with 100 units started, 10 depleted and 24 units per case, and an edit of
  its row that changes nothing but the number of cases, from 3 to 5.
\<close>

definition example_item :: ledger_item where
  "example_item = \<lparr>item_name = ''Caps'', units_per_case = 24, started = 100, depleted = 10,
     added = 0, units_remaining = 90, cases_remaining = 3\<rparr>"

definition example_cases_edit :: edit_row where
  "example_cases_edit = \<lparr>row_id = 7, row_item_name = ''Caps'', row_units_per_case = 24,
     row_started = 100, row_depleted = 10, row_cases_remaining = 5\<rparr>"

text \<open>An edit of the same row that raises \<open>started\<close> to 120.\<close>

definition example_started_edit :: edit_row where
  "example_started_edit = \<lparr>row_id = 7, row_item_name = ''Caps'', row_units_per_case = 24,
     row_started = 120, row_depleted = 10, row_cases_remaining = 3\<rparr>"

text \<open>An item with 5 units left in cases of 12, and a recipe that takes 7 units a case.\<close>

definition example_low_item :: ledger_item where
  "example_low_item = \<lparr>item_name = ''Labels'', units_per_case = 12, started = 5, depleted = 0,
     added = 0, units_remaining = 5, cases_remaining = 0\<rparr>"

definition example_label_recipe :: production_recipe where
  "example_label_recipe = \<lparr>finished_good_id = 1, inventory_item_id = 7,
     packaging_type = ''Singles'', qty_per_case = 7, wastage_factor = 0\<rparr>"

text \<open>
  Recipes of finished good 1. For shipping packaging, item 7 takes 1.5 units a case with
  25 percent wastage; for singles it takes 24 units a case. All these numbers are doubles.
\<close>

definition example_production_recipes :: "production_recipe list" where
  "example_production_recipes =
     [\<lparr>finished_good_id = 1, inventory_item_id = 7, packaging_type = ''Shipping (S)'',
        qty_per_case = 3 / 2, wastage_factor = 1 / 4\<rparr>,
      \<lparr>finished_good_id = 1, inventory_item_id = 7, packaging_type = ''Singles'',
        qty_per_case = 24, wastage_factor = 0\<rparr>]"


text \<open>
  Recipes whose products fall on or near a half: 1.25 units a case (2 cases give 2.5), and
  the double next to 1.2 with 25 percent wastage (9 cases give 13.499999999999998 in
  doubles, where the exact product of 9, 1.2 and 1.25 is 13.5), and the double next to 0.1
  as wastage of 1 unit a case (55 cases give 60.50000000000001).
\<close>

definition example_tie_recipe :: production_recipe where
  "example_tie_recipe = \<lparr>finished_good_id = 1, inventory_item_id = 7,
     packaging_type = ''Singles'', qty_per_case = 5 / 4, wastage_factor = 0\<rparr>"

definition example_near_half_recipe :: production_recipe where
  "example_near_half_recipe = \<lparr>finished_good_id = 1, inventory_item_id = 7,
     packaging_type = ''Singles'', qty_per_case = fl (12 / 10), wastage_factor = 1 / 4\<rparr>"

definition example_tenth_recipe :: production_recipe where
  "example_tenth_recipe = \<lparr>finished_good_id = 1, inventory_item_id = 7,
     packaging_type = ''Singles'', qty_per_case = 1, wastage_factor = fl (1 / 10)\<rparr>"

text \<open>
  Two bulk spirits, one at 48 percent ABV and one at 0, and a batch whose recipe takes 60
  percent of its weight from the first and 40 percent from the second.
\<close>

definition example_rum :: bulk_spirit where
  "example_rum = \<lparr>sp_name = ''Rum'', sp_proof = 96, sp_abv = 48, sp_weight_lbs = 500,
     sp_wine_gallons = 0, sp_proof_gallons = 0\<rparr>"

definition example_mixer :: bulk_spirit where
  "example_mixer = \<lparr>sp_name = ''Mixer'', sp_proof = 0, sp_abv = 0, sp_weight_lbs = 500,
     sp_wine_gallons = 0, sp_proof_gallons = 0\<rparr>"

definition example_spirits :: "int \<rightharpoonup> bulk_spirit" where
  "example_spirits = Map.empty(1 \<mapsto> example_rum, 2 \<mapsto> example_mixer)"

definition example_recipes :: "batch_recipe list" where
  "example_recipes =
     [\<lparr>r_batch_id = 1, r_bulk_spirit_id = Some 1, r_ingredient_name = ''Rum'',
        r_percentage = 60\<rparr>,
      \<lparr>r_batch_id = 1, r_bulk_spirit_id = Some 2, r_ingredient_name = ''Mixer'',
        r_percentage = 40\<rparr>]"

definition example_batch :: batch where
  "example_batch = \<lparr>b_name = ''Daiquiri'', b_gallons = 0, b_bottled_gallons = 0,
     b_ending = 0, b_abv = 16, b_proof_gallons = 0\<rparr>"

definition example_db :: db_state where
  "example_db =
     \<lparr>bulk_spirits = example_spirits,
      batches = Map.empty(1 \<mapsto> example_batch),
      batch_recipes = example_recipes,
      batch_production_log = []\<rparr>"

text \<open>
  The store after a first run of 100 lbs, then with the recipe of the batch edited to take
  all its weight from the spirit at 0 percent, then after a second run of 100 lbs. In both
  runs the spirits suffice, so the button is enabled and its press is reported.
\<close>

definition example_db_first :: db_state where
  "example_db_first =
     snd (produce_batch pressed_when_enabled example_db 1 100 ''2025-01-01'' '''')"

definition example_db_edited :: db_state where
  "example_db_edited =
     example_db_first\<lparr>batch_recipes :=
       [\<lparr>r_batch_id = 1, r_bulk_spirit_id = Some 2, r_ingredient_name = ''Mixer'',
          r_percentage = 100\<rparr>]\<rparr>"

definition example_db_second :: db_state where
  "example_db_second =
     snd (produce_batch pressed_when_enabled example_db_edited 1 100 ''2025-01-02'' '''')"

text \<open>
  The first store after a run of 1000 lbs, which needs 600 lbs of the first spirit where
  500 are there, with the press reported.
\<close>

definition example_db_overdrawn :: db_state where
  "example_db_overdrawn =
     snd (produce_batch pressed_regardless example_db 1 1000 ''2025-01-01'' '''')"

section \<open>Truncation of a quotient of integers\<close>

lemma quotient_sign: "0 < (b::int) \<Longrightarrow> (0 \<le> (of_int a / of_int b :: real)) = (0 \<le> a)"
  by (simp add: zero_le_divide_iff)

lemma py_int_quotient:
  "0 < b \<Longrightarrow> py_int (of_int a / of_int b)
     = (if 0 \<le> a then \<lfloor>of_int a / of_int b :: real\<rfloor> else \<lceil>of_int a / of_int b :: real\<rceil>)"
  by (simp add: py_int_def quotient_sign)

lemma leftover_div: "0 < (u::int) \<Longrightarrow> (c * u + x mod u) div u = c"
  by simp

lemma member_not_nil: "x \<in> set xs \<Longrightarrow> xs \<noteq> []"
  by auto

lemmas metrics_eval =
  derive_finished_good_metrics_def calculate_total_cases_from_stock_def UNITS_PER_CASE_def
  GALLONS_PER_CASE_def DEFAULT_TAX_RATE_def calculate_proof_gallons_def
  calculate_excise_tax_def Let_def

lemmas blend_eval =
  produce_batch_def batch_abv_def lookup_spirit_def spirit_ref_def Let_def
  calculate_gallons_from_weight_def calculate_density_from_abv_def
  calculate_weight_from_gallons_def calculate_proof_gallons_def

lemmas blend_examples =
  example_db_def example_recipes_def example_spirits_def example_rum_def example_mixer_def
  example_batch_def

lemma binade_numeral:
  "binade (numeral k) x e =
     (if pow2 (e + 1) \<le> x then binade (pred_numeral k) x (e + 1)
      else if x < pow2 e then binade (pred_numeral k) x (e - 1)
      else e)"
  by (simp add: numeral_eq_Suc)

lemmas fl_eval = fl_def binade_numeral pow2_def py_round_def Let_def

lemmas depletion_eval =
  deplete_item_def depletion_int_def fl_eval py_int_def ceiling_def

section \<open>Finished-good metrics\<close>

lemma total_cases_as_quotient:
  "calculate_total_cases_from_stock singles bottled_s bottled_i
     = of_int (singles + (bottled_s + bottled_i) * 24) / of_int 24"
  by (simp add: calculate_total_cases_from_stock_def UNITS_PER_CASE_def algebra_simps)

lemma current_stock_truncates:
  "current_stock (derive_finished_good_metrics singles bottled_s bottled_i abv_v)
     = (if 0 \<le> singles + (bottled_s + bottled_i) * 24
        then \<lfloor>(of_int (singles + (bottled_s + bottled_i) * 24) / of_int 24 :: real)\<rfloor>
        else \<lceil>(of_int (singles + (bottled_s + bottled_i) * 24) / of_int 24 :: real)\<rceil>)"
proof -
  have "current_stock (derive_finished_good_metrics singles bottled_s bottled_i abv_v)
          = py_int (calculate_total_cases_from_stock singles bottled_s bottled_i)"
    by (simp add: derive_finished_good_metrics_def Let_def)
  also have "\<dots> = py_int (of_int (singles + (bottled_s + bottled_i) * 24) / of_int 24)"
    by (simp only: total_cases_as_quotient)
  also have "\<dots> = (if 0 \<le> singles + (bottled_s + bottled_i) * 24
        then \<lfloor>(of_int (singles + (bottled_s + bottled_i) * 24) / of_int 24 :: real)\<rfloor>
        else \<lceil>(of_int (singles + (bottled_s + bottled_i) * 24) / of_int 24 :: real)\<rceil>)"
    by (rule py_int_quotient) simp
  finally show ?thesis .
qed

text \<open>
  Claim C1, the example as the spec gives it. For singles = 164, bottledS = 6,
  bottledI = 13 and ABV = 17.01 the claim states currentStock = 19, proofGallons near 8.577
  and exciseTaxDue near 115.79. The unit count is 164 + 19 * 24 = 620, that is 25.83 cases,
  so the function returns 25 cases, and the two amounts are off by more than a unit in the
  last digit the claim gives.
\<close>

theorem derive_finished_good_metrics_example_refuted:
  "current_stock (derive_finished_good_metrics 164 6 13 (1701 / 100)) \<noteq> 19
   \<and> \<not> \<bar>proof_gallons (derive_finished_good_metrics 164 6 13 (1701 / 100)) - 8577 / 1000\<bar>
         \<le> 1 / 1000
   \<and> \<not> \<bar>excise_tax_due (derive_finished_good_metrics 164 6 13 (1701 / 100)) - 11579 / 100\<bar>
         \<le> 1 / 100"
  by (simp add: metrics_eval py_int_def)

text \<open>
  Claim C1, amended. With n = singles + (bottledS + bottledI) * 24 units,
  \<open>derive_finished_good_metrics\<close> returns currentStock equal to n / 24 truncated toward
  zero (the floor of a quotient that is not negative, the ceiling of a negative one); for
  ABV above 0 it returns proofGallons = (n / 24 * 1.27) * (ABV * 2) / 100 and exciseTaxDue =
  proofGallons * 13.50, and otherwise 0 for both. For singles = 164, bottledS = 6,
  bottledI = 13 and ABV = 17.01 it returns currentStock = 25, proofGallons = 11.161395 and
  exciseTaxDue = 150.6788325.
\<close>

theorem derive_finished_good_metrics_spec:
  "current_stock (derive_finished_good_metrics singles bottled_s bottled_i abv_v)
     = (if 0 \<le> singles + (bottled_s + bottled_i) * 24
        then \<lfloor>(of_int (singles + (bottled_s + bottled_i) * 24) / of_int 24 :: real)\<rfloor>
        else \<lceil>(of_int (singles + (bottled_s + bottled_i) * 24) / of_int 24 :: real)\<rceil>)
   \<and> proof_gallons (derive_finished_good_metrics singles bottled_s bottled_i abv_v)
     = (if 0 < abv_v
        then (of_int (singles + (bottled_s + bottled_i) * 24) / 24 * (127 / 100))
               * (abv_v * 2) / 100
        else 0)
   \<and> excise_tax_due (derive_finished_good_metrics singles bottled_s bottled_i abv_v)
     = (if 0 < abv_v
        then proof_gallons (derive_finished_good_metrics singles bottled_s bottled_i abv_v)
               * (1350 / 100)
        else 0)
   \<and> derive_finished_good_metrics 164 6 13 (1701 / 100)
     = \<lparr>current_stock = 25, proof_gallons = 11161395 / 1000000,
        excise_tax_due = 1506788325 / 10000000\<rparr>"
proof (intro conjI)
  show "current_stock (derive_finished_good_metrics singles bottled_s bottled_i abv_v)
     = (if 0 \<le> singles + (bottled_s + bottled_i) * 24
        then \<lfloor>(of_int (singles + (bottled_s + bottled_i) * 24) / of_int 24 :: real)\<rfloor>
        else \<lceil>(of_int (singles + (bottled_s + bottled_i) * 24) / of_int 24 :: real)\<rceil>)"
    by (rule current_stock_truncates)
next
  show "proof_gallons (derive_finished_good_metrics singles bottled_s bottled_i abv_v)
     = (if 0 < abv_v
        then (of_int (singles + (bottled_s + bottled_i) * 24) / 24 * (127 / 100))
               * (abv_v * 2) / 100
        else 0)"
    by (simp add: metrics_eval algebra_simps)
next
  show "excise_tax_due (derive_finished_good_metrics singles bottled_s bottled_i abv_v)
     = (if 0 < abv_v
        then proof_gallons (derive_finished_good_metrics singles bottled_s bottled_i abv_v)
               * (1350 / 100)
        else 0)"
    by (simp add: metrics_eval)
next
  show "derive_finished_good_metrics 164 6 13 (1701 / 100)
     = \<lparr>current_stock = 25, proof_gallons = 11161395 / 1000000,
        excise_tax_due = 1506788325 / 10000000\<rparr>"
    by (simp add: metrics_eval py_int_def)
qed

section \<open>Proof gallons\<close>

text \<open>
  Claim C2, as the spec gives it: proofGallons(v, p) = v * p / 200 for v and p not
  negative. One gallon at proof 100 gives 1 proof gallon in the source, not 0.5.
\<close>

theorem calculate_proof_gallons_not_over_200:
  "(0::real) \<le> 1 \<and> (0::real) \<le> 100 \<and> calculate_proof_gallons 1 100 \<noteq> 1 * 100 / 200"
  by (simp add: calculate_proof_gallons_def)

text \<open>
  Claim C2, amended. For every volume v and proof p the conversion is
  proofGallons(v, p) = v * p / 100, and proofGallons(0, p) = 0.
\<close>

theorem calculate_proof_gallons_spec:
  "calculate_proof_gallons v p = v * p / 100 \<and> calculate_proof_gallons 0 p = 0"
  by (simp add: calculate_proof_gallons_def)

section \<open>Ledger edits\<close>

lemma reconcile_invariant: "ledger_invariant (reconcile_ledger_edit current_item row)"
  by (simp add: ledger_invariant_def reconcile_ledger_edit_def Let_def)

lemma save_row_good:
  "save_row store row = Inr store' \<Longrightarrow>
     \<exists>it. store' (row_id row) = Some it \<and> ledger_invariant it"
  by (auto simp: save_row_def reconcile_invariant split: option.splits)

lemma save_row_keeps:
  "save_row store row = Inr store' \<Longrightarrow> store k = Some it \<Longrightarrow> ledger_invariant it \<Longrightarrow>
     \<exists>it'. store' k = Some it' \<and> ledger_invariant it'"
  by (auto simp: save_row_def reconcile_invariant split: option.splits)

lemma save_all_keeps:
  "save_all_changes store rows = Inr store' \<Longrightarrow> store k = Some it \<Longrightarrow> ledger_invariant it \<Longrightarrow>
     \<exists>it'. store' k = Some it' \<and> ledger_invariant it'"
proof (induction rows arbitrary: store it)
  case Nil
  then show ?case by simp
next
  case (Cons row rows)
  from Cons.prems(1) obtain mid where m: "save_row store row = Inr mid"
    and r: "save_all_changes mid rows = Inr store'"
    by (auto split: sum.splits)
  from save_row_keeps [OF m Cons.prems(2,3)] obtain it' where
    "mid k = Some it'" "ledger_invariant it'" by blast
  with Cons.IH [OF r] show ?case by blast
qed

text \<open>
  When the whole save loop ends without an exception, the stored record of every edited
  row satisfies the ledger formula, whatever the later rows wrote.
\<close>

lemma save_all_changes_invariant:
  "save_all_changes store rows = Inr store' \<Longrightarrow> row \<in> set rows \<Longrightarrow>
     \<exists>it. store' (row_id row) = Some it \<and> ledger_invariant it"
proof (induction rows arbitrary: store)
  case Nil
  then show ?case by simp
next
  case (Cons r rows)
  from Cons.prems(1) obtain mid where m: "save_row store r = Inr mid"
    and rest: "save_all_changes mid rows = Inr store'"
    by (auto split: sum.splits)
  show ?case
  proof (cases "row \<in> set rows")
    case True
    with Cons.IH [OF rest] show ?thesis by blast
  next
    case False
    with Cons.prems(2) have "row = r" by simp
    with save_row_good [OF m] obtain it where "mid (row_id row) = Some it" "ledger_invariant it"
      by blast
    with save_all_keeps [OF rest] show ?thesis by blast
  qed
qed

text \<open>
  Claim C3. For every ledger item in the store and every edited row for it, the save
  writes the reconciled record, and that record satisfies
  unitsRemaining = started - depleted + added, on either branch.
\<close>

theorem reconcile_ledger_edit_invariant:
  assumes "store (row_id row) = Some current_item"
  shows "save_row store row = Inr (store(row_id row \<mapsto> reconcile_ledger_edit current_item row))
       \<and> units_remaining (reconcile_ledger_edit current_item row)
           = started (reconcile_ledger_edit current_item row)
             - depleted (reconcile_ledger_edit current_item row)
             + added (reconcile_ledger_edit current_item row)"
  using assms reconcile_invariant [of current_item row]
  by (simp add: save_row_def ledger_invariant_def)

text \<open>
  The theorem at the example item, once with the number of cases edited (first branch)
  and once with \<open>started\<close> edited (second branch).
\<close>

theorem reconcile_ledger_edit_invariant_witness:
  "save_row (Map.empty(7 \<mapsto> example_item)) example_cases_edit
     = Inr (Map.empty(7 \<mapsto> \<lparr>item_name = ''Caps'', units_per_case = 24, started = 100,
              depleted = 10, added = 48, units_remaining = 138, cases_remaining = 5\<rparr>))
   \<and> save_row (Map.empty(7 \<mapsto> example_item)) example_started_edit
     = Inr (Map.empty(7 \<mapsto> \<lparr>item_name = ''Caps'', units_per_case = 24, started = 120,
              depleted = 10, added = 0, units_remaining = 110, cases_remaining = 4\<rparr>))"
  using reconcile_ledger_edit_invariant
      [of "Map.empty(7 \<mapsto> example_item)" example_cases_edit example_item]
    reconcile_ledger_edit_invariant
      [of "Map.empty(7 \<mapsto> example_item)" example_started_edit example_item]
  by (simp add: example_item_def example_cases_edit_def example_started_edit_def
      reconcile_ledger_edit_def py_int_def)

text \<open>
  Claim C4. When the edited row changes casesRemaining and leaves started and depleted as
  they are, the reconciled record has unitsRemaining = casesRemaining * unitsPerCase +
  leftover, where leftover is the current unitsRemaining mod the row's unitsPerCase (0 when
  unitsPerCase is not positive), added = unitsRemaining - started + depleted, and
  casesRemaining as edited; for a positive unitsPerCase the leftover of the new
  unitsRemaining is that of the old.
\<close>

theorem reconcile_ledger_edit_leftover:
  assumes "row_cases_remaining row \<noteq> cases_remaining current_item"
    and "row_started row = started current_item"
    and "row_depleted row = depleted current_item"
  shows "units_remaining (reconcile_ledger_edit current_item row)
           = row_cases_remaining row * row_units_per_case row
             + (if 0 < row_units_per_case row
                then units_remaining current_item mod row_units_per_case row else 0)
       \<and> added (reconcile_ledger_edit current_item row)
           = units_remaining (reconcile_ledger_edit current_item row)
             - started current_item + depleted current_item
       \<and> started (reconcile_ledger_edit current_item row) = started current_item
       \<and> depleted (reconcile_ledger_edit current_item row) = depleted current_item
       \<and> cases_remaining (reconcile_ledger_edit current_item row) = row_cases_remaining row
       \<and> (if 0 < row_units_per_case row
          then units_remaining (reconcile_ledger_edit current_item row) mod row_units_per_case row
          else 0)
           = (if 0 < row_units_per_case row
              then units_remaining current_item mod row_units_per_case row else 0)"
  using assms by (simp add: reconcile_ledger_edit_def Let_def)

text \<open>
  The example of the spec: unitsPerCase = 24, started = 100, depleted = 10, added = 0,
  unitsRemaining = 90, cases edited from 3 to 5, giving unitsRemaining = 138 and added = 48.
\<close>

theorem reconcile_ledger_edit_leftover_witness:
  "row_cases_remaining example_cases_edit \<noteq> cases_remaining example_item
   \<and> row_started example_cases_edit = started example_item
   \<and> row_depleted example_cases_edit = depleted example_item
   \<and> units_remaining example_item mod 24 = 18
   \<and> units_remaining (reconcile_ledger_edit example_item example_cases_edit) = 138
   \<and> added (reconcile_ledger_edit example_item example_cases_edit) = 48"
  using reconcile_ledger_edit_leftover [of example_cases_edit example_item]
  by (simp add: example_item_def example_cases_edit_def)

section \<open>Batch blending\<close>

lemma total_alcohol_weight_sum:
  "total_alcohol_weight spirits w acc recipes
     = acc + sum_list (map (\<lambda>r. case lookup_spirit spirits r of
                                 None \<Rightarrow> 0
                               | Some spirit \<Rightarrow>
                                   (w * (r_percentage r / 100)) * (sp_abv spirit / 100))
                       (filter (\<lambda>r. lookup_spirit spirits r \<noteq> None) recipes))"
  by (induction recipes arbitrary: acc) (auto simp: Let_def split: option.splits)

lemma lookup_spirit_null: "lookup_spirit spirits (r\<lparr>r_bulk_spirit_id := None\<rparr>) = None"
  by (simp add: lookup_spirit_def spirit_ref_def)

lemma example_spirits_simps:
  "example_spirits 1 = Some example_rum" "example_spirits 2 = Some example_mixer"
  by (simp_all add: example_spirits_def)

text \<open>
  Claim C5. For a weight to produce above 0 the blended ABV is the sum, over the recipe
  rows whose spirit is found, of (weightToProduce * percentage / 100) * spiritABV / 100,
  divided by weightToProduce and multiplied by 100; it is 0 otherwise, so for
  weightToProduce = 0. A row with a null bulkSpiritId, wherever it stands in the recipe,
  does not change the result. Two spirits at 60 percent of the weight and 48 percent ABV
  and at 40 percent and 0 percent, with 100 lbs to produce, give 28.8.
\<close>

theorem batch_abv_weighted:
  "batch_abv spirits w recipes
     = (if 0 < w
        then sum_list (map (\<lambda>r. case lookup_spirit spirits r of
                                    None \<Rightarrow> 0
                                  | Some spirit \<Rightarrow>
                                      (w * (r_percentage r / 100)) * (sp_abv spirit / 100))
                          (filter (\<lambda>r. lookup_spirit spirits r \<noteq> None) recipes)) / w * 100
        else 0)
   \<and> batch_abv spirits w (before @ r\<lparr>r_bulk_spirit_id := None\<rparr> # after)
     = batch_abv spirits w (before @ after)
   \<and> batch_abv example_spirits 100 example_recipes = 288 / 10"
proof (intro conjI)
  show "batch_abv spirits w recipes
     = (if 0 < w
        then sum_list (map (\<lambda>r. case lookup_spirit spirits r of
                                    None \<Rightarrow> 0
                                  | Some spirit \<Rightarrow>
                                      (w * (r_percentage r / 100)) * (sp_abv spirit / 100))
                          (filter (\<lambda>r. lookup_spirit spirits r \<noteq> None) recipes)) / w * 100
        else 0)"
    by (simp add: batch_abv_def total_alcohol_weight_sum)
next
  show "batch_abv spirits w (before @ r\<lparr>r_bulk_spirit_id := None\<rparr> # after)
     = batch_abv spirits w (before @ after)"
    by (simp add: batch_abv_def total_alcohol_weight_sum lookup_spirit_null)
next
  show "batch_abv example_spirits 100 example_recipes = 288 / 10"
    by (simp add: batch_abv_def example_recipes_def lookup_spirit_def spirit_ref_def
        example_spirits_simps example_rum_def example_mixer_def)
qed

lemma can_produce_short:
  "recipe \<in> set recipes \<Longrightarrow> lookup_spirit spirits recipe = Some spirit \<Longrightarrow>
   sp_weight_lbs spirit < w * (r_percentage recipe / 100) \<Longrightarrow>
   \<not> can_produce spirits w recipes"
  by (induction recipes) (auto simp: Let_def split: option.splits)

text \<open>
  What the argument \<open>disabled\<close> is worth: with a widget that reports no press in a run
  that draws the button disabled, a run in which some found spirit is short of its
  ingredient weight leaves the store as it was. The source gives no such widget; whether
  the press is dropped is decided outside it.
\<close>

lemma produce_batch_widget_guard:
  assumes "form_submit_button True = False"
    and "recipe \<in> set (batch_recipes db)"
    and "r_batch_id recipe = bid"
    and "lookup_spirit (bulk_spirits db) recipe = Some spirit"
    and "sp_weight_lbs spirit < w * (r_percentage recipe / 100)"
  shows "snd (produce_batch form_submit_button db bid w production_date notes_v) = db
       \<and> fst (produce_batch form_submit_button db bid w production_date notes_v) \<noteq> Produced"
proof -
  let ?rs = "filter (\<lambda>r. r_batch_id r = bid) (batch_recipes db)"
  from assms(2,3) have m: "recipe \<in> set ?rs" by simp
  from can_produce_short [OF m assms(4,5)]
  have "\<not> can_produce (bulk_spirits db) w ?rs" .
  with assms(1) show ?thesis
    by (simp add: produce_batch_def Let_def split: option.splits)
qed

text \<open>
  Claim C6 on the source: a blend whose ingredient weight exceeds a spirit's weight is to
  be rejected before any mutation. In the first store a run for 1000 lbs needs 600 lbs of
  the first spirit, which has 500, so \<open>can_produce\<close> is false and the button is drawn
  disabled in that run. The handler has no test of its own: once the press is reported it
  writes the first spirit with -100 lbs and the second with 100, writes the batch, and
  appends the production log entry.
\<close>

theorem produce_batch_short_spirit_overdrawn:
  "\<not> can_produce (bulk_spirits example_db) 1000
         (filter (\<lambda>r. r_batch_id r = 1) (batch_recipes example_db))
   \<and> map_option sp_weight_lbs (bulk_spirits example_db 1) = Some 500
   \<and> fst (produce_batch pressed_regardless example_db 1 1000 ''2025-01-01'' '''') = Produced
   \<and> map_option sp_weight_lbs (bulk_spirits example_db_overdrawn 1) = Some (- 100)
   \<and> map_option sp_weight_lbs (bulk_spirits example_db_overdrawn 2) = Some 100
   \<and> map_option b_abv (batches example_db_overdrawn 1) = Some (144 / 5)
   \<and> map l_weight_produced_lbs (batch_production_log example_db_overdrawn) = [1000]"
  by (simp add: example_db_overdrawn_def pressed_regardless_def blend_eval blend_examples)

lemma first_run:
  "produce_batch pressed_when_enabled example_db 1 100 ''2025-01-01'' ''''
     = (Produced, example_db_first)"
proof -
  have "fst (produce_batch pressed_when_enabled example_db 1 100 ''2025-01-01'' '''') = Produced"
    by (simp add: pressed_when_enabled_def blend_eval blend_examples)
  then show ?thesis
    unfolding example_db_first_def by (simp add: prod_eq_iff)
qed

lemma example_filter: "filter (\<lambda>r. r_batch_id r = 1) example_recipes = example_recipes"
  by (simp add: example_recipes_def)

lemma example_abv: "batch_abv example_spirits 100 example_recipes = 144 / 5"
  by (simp add: batch_abv_def example_recipes_def lookup_spirit_def spirit_ref_def
      example_spirits_simps example_rum_def example_mixer_def)

text \<open>
  Claim C8, as the spec gives it: after every run the stored ABV of the batch is the
  weighted average over all its runs. Two runs of 100 lbs each succeed, the first blended
  at 28.8 percent and the second, after the recipe was edited, at 0 percent. The average
  over both runs is 14.4 percent; the batch stores 0, the ABV of the second run.
\<close>

theorem batch_abv_not_lifetime_average:
  "fst (produce_batch pressed_when_enabled example_db 1 100 ''2025-01-01'' '''') = Produced
   \<and> fst (produce_batch pressed_when_enabled example_db_edited 1 100 ''2025-01-02'' '''')
       = Produced
   \<and> map_option b_abv (batches example_db_second 1) = Some 0
   \<and> spec_lifetime_weighted_abv (batch_production_log example_db_second) 1 = 72 / 5"
  by (simp add: example_db_second_def example_db_edited_def example_db_first_def
      pressed_when_enabled_def blend_eval blend_examples spec_lifetime_weighted_abv_def)

text \<open>
  Claim C8, amended. After a blend production run that succeeds, the stored ABV of the
  batch is the blended ABV of that run, the weighted average of the ingredient
  contributions of that run alone, and the run's log entry carries the same value.
\<close>

theorem produce_batch_abv_latest_run:
  assumes "produce_batch form_submit_button db bid w production_date notes_v = (Produced, db')"
  shows "map_option b_abv (batches db' bid)
           = Some (batch_abv (bulk_spirits db) w
                     (filter (\<lambda>r. r_batch_id r = bid) (batch_recipes db)))
       \<and> map l_abv (batch_production_log db')
           = map l_abv (batch_production_log db)
             @ [batch_abv (bulk_spirits db) w
                  (filter (\<lambda>r. r_batch_id r = bid) (batch_recipes db))]"
  using assms
  by (auto simp: produce_batch_def Let_def split: option.splits if_splits sum.splits prod.splits)

theorem produce_batch_abv_latest_run_witness:
  "produce_batch pressed_when_enabled example_db 1 100 ''2025-01-01'' ''''
     = (Produced, example_db_first)
   \<and> map_option b_abv (batches example_db_first 1) = Some (144 / 5)
   \<and> map l_abv (batch_production_log example_db_first) = [144 / 5]"
  using produce_batch_abv_latest_run [OF first_run] first_run
  by (simp add: example_db_def example_abv example_filter)

section \<open>Depletion of ledger items by production\<close>

text \<open>
  The depletions of the example recipes, in doubles: 3 * 1.5 * 1.25 = 5.625 gives 6,
  2 * 1.25 = 2.5 gives 2 (the even neighbour), 9 * 1.2 * 1.25 gives 13 and 55 * 1.0 * 1.1
  gives 61.
\<close>

lemma example_depletions:
  "depletion_int 1 example_label_recipe = 7"
  "depletion_int 3 (hd example_production_recipes) = 6"
  "depletion_int 2 example_tie_recipe = 2"
  "depletion_int 9 example_near_half_recipe = 13"
  "depletion_int 55 example_tenth_recipe = 61"
  by (simp_all add: depletion_int_def example_label_recipe_def example_production_recipes_def
      example_tie_recipe_def example_near_half_recipe_def example_tenth_recipe_def fl_eval)


lemma deplete_item_cases:
  "cases_remaining (deplete_item it c r)
     = (if 0 < units_per_case it
        then py_int (of_int (units_remaining (deplete_item it c r)) / of_int (units_per_case it))
        else 0)"
  by (simp add: deplete_item_def Let_def)

lemma reconcile_canonical_cases:
  "\<not> (row_cases_remaining row \<noteq> cases_remaining cur
        \<and> row_started row = started cur \<and> row_depleted row = depleted cur) \<Longrightarrow>
   cases_remaining (reconcile_ledger_edit cur row)
     = (if 0 < row_units_per_case row
        then py_int (of_int (units_remaining (reconcile_ledger_edit cur row))
                      / of_int (row_units_per_case row))
        else 0)"
  by (auto simp: reconcile_ledger_edit_def Let_def)

lemma reconcile_leftover_cases:
  "row_cases_remaining row \<noteq> cases_remaining cur
     \<and> row_started row = started cur \<and> row_depleted row = depleted cur \<Longrightarrow>
   0 < row_units_per_case row \<Longrightarrow>
   cases_remaining (reconcile_ledger_edit cur row)
     = units_remaining (reconcile_ledger_edit cur row) div row_units_per_case row"
  by (simp add: reconcile_ledger_edit_def Let_def)

text \<open>The loop comes to its end exactly when every recipe names an item of the store.\<close>

lemma deplete_inventory_ends:
  "(\<exists>s u. deplete_inventory store c ups recipes = Inr (s, u))
     = list_all (\<lambda>r. store (inventory_item_id r) \<noteq> None) recipes"
proof (induction recipes arbitrary: store ups)
  case Nil
  then show ?case by simp
next
  case (Cons r rs)
  show ?case
  proof (cases "store (inventory_item_id r)")
    case None
    then show ?thesis by simp
  next
    case (Some cur)
    let ?st = "store(inventory_item_id r \<mapsto> deplete_item cur c r)"
    let ?u = "\<lparr>upd_item = item_name cur, upd_depletion = depletion_int c r,
                upd_units_remaining = units_remaining (deplete_item cur c r),
                upd_cases_remaining = cases_remaining (deplete_item cur c r)\<rparr>"
    have pp: "(\<lambda>r. ?st (inventory_item_id r) \<noteq> None) = (\<lambda>r. store (inventory_item_id r) \<noteq> None)"
      using Some by (auto simp: fun_eq_iff)
    have g: "deplete_inventory store c ups (r # rs) = deplete_inventory ?st c (ups @ [?u]) rs"
      using Some by (simp add: Let_def)
    have l: "list_all (\<lambda>r. store (inventory_item_id r) \<noteq> None) (r # rs)
               = list_all (\<lambda>r. store (inventory_item_id r) \<noteq> None) rs"
      using Some by simp
    from Cons.IH [of ?st "ups @ [?u]"] show ?thesis
      unfolding g l pp .
  qed
qed




text \<open>
  Claim C9, as the spec gives it: casesRemaining is the floor of unitsRemaining /
  unitsPerCase also for a negative unitsRemaining, and 0 when unitsPerCase is not positive.
  A depletion of 11 units from an item with 10 units in cases of 24 leaves -1 unit and 0
  cases, where the floor is -1. An edit of the number of cases to 5 on an item with
  unitsPerCase = 0 stores 5 cases.
\<close>

theorem cases_remaining_not_floor:
  "cases_remaining (deplete_item
       \<lparr>item_name = ''Caps'', units_per_case = 24, started = 10, depleted = 0, added = 0,
          units_remaining = 10, cases_remaining = 0\<rparr> 1
       \<lparr>finished_good_id = 1, inventory_item_id = 7, packaging_type = ''Singles'',
          qty_per_case = 11, wastage_factor = 0\<rparr>)
     \<noteq> \<lfloor>(of_int (units_remaining (deplete_item
         \<lparr>item_name = ''Caps'', units_per_case = 24, started = 10, depleted = 0, added = 0,
            units_remaining = 10, cases_remaining = 0\<rparr> 1
         \<lparr>finished_good_id = 1, inventory_item_id = 7, packaging_type = ''Singles'',
            qty_per_case = 11, wastage_factor = 0\<rparr>)) / of_int 24 :: real)\<rfloor>
   \<and> cases_remaining (reconcile_ledger_edit
       \<lparr>item_name = ''Caps'', units_per_case = 0, started = 0, depleted = 0, added = 0,
          units_remaining = 0, cases_remaining = 0\<rparr>
       \<lparr>row_id = 7, row_item_name = ''Caps'', row_units_per_case = 0, row_started = 0,
          row_depleted = 0, row_cases_remaining = 5\<rparr>) \<noteq> 0"
  by (simp add: depletion_eval reconcile_ledger_edit_def)

text \<open>
  Claim C9, amended. After an edit reconciliation with a positive unitsPerCase and a
  unitsRemaining that is not negative, casesRemaining is the floor of unitsRemaining /
  unitsPerCase. After an edit on the started/depleted branch, and after a production
  depletion, casesRemaining is unitsRemaining / unitsPerCase truncated toward zero for a
  positive unitsPerCase (the floor when unitsRemaining is not negative, the ceiling when
  it is negative), and 0 when unitsPerCase is not positive.
\<close>

theorem cases_remaining_truncated:
  "(0 < row_units_per_case row \<and> 0 \<le> units_remaining (reconcile_ledger_edit cur row) \<longrightarrow>
      cases_remaining (reconcile_ledger_edit cur row)
        = \<lfloor>(of_int (units_remaining (reconcile_ledger_edit cur row))
             / of_int (row_units_per_case row) :: real)\<rfloor>)
   \<and> (\<not> (row_cases_remaining row \<noteq> cases_remaining cur
          \<and> row_started row = started cur \<and> row_depleted row = depleted cur) \<longrightarrow>
      cases_remaining (reconcile_ledger_edit cur row)
        = (if 0 < row_units_per_case row
           then (if 0 \<le> units_remaining (reconcile_ledger_edit cur row)
                 then \<lfloor>(of_int (units_remaining (reconcile_ledger_edit cur row))
                       / of_int (row_units_per_case row) :: real)\<rfloor>
                 else \<lceil>(of_int (units_remaining (reconcile_ledger_edit cur row))
                       / of_int (row_units_per_case row) :: real)\<rceil>)
           else 0))
   \<and> cases_remaining (deplete_item it c r)
        = (if 0 < units_per_case it
           then (if 0 \<le> units_remaining (deplete_item it c r)
                 then \<lfloor>(of_int (units_remaining (deplete_item it c r))
                       / of_int (units_per_case it) :: real)\<rfloor>
                 else \<lceil>(of_int (units_remaining (deplete_item it c r))
                       / of_int (units_per_case it) :: real)\<rceil>)
           else 0)"
proof (intro conjI impI)
  let ?n = "reconcile_ledger_edit cur row"
  assume a: "0 < row_units_per_case row \<and> 0 \<le> units_remaining ?n"
  show "cases_remaining ?n
        = \<lfloor>(of_int (units_remaining ?n) / of_int (row_units_per_case row) :: real)\<rfloor>"
  proof (cases "row_cases_remaining row \<noteq> cases_remaining cur
          \<and> row_started row = started cur \<and> row_depleted row = depleted cur")
    case True
    from reconcile_leftover_cases [OF True] a show ?thesis
      by (simp only: floor_divide_of_int_eq)
  next
    case False
    from reconcile_canonical_cases [OF False] a show ?thesis
      by (simp only: py_int_quotient if_True)
  qed
next
  let ?n = "reconcile_ledger_edit cur row"
  assume b: "\<not> (row_cases_remaining row \<noteq> cases_remaining cur
          \<and> row_started row = started cur \<and> row_depleted row = depleted cur)"
  show "cases_remaining ?n
        = (if 0 < row_units_per_case row
           then (if 0 \<le> units_remaining ?n
                 then \<lfloor>(of_int (units_remaining ?n) / of_int (row_units_per_case row) :: real)\<rfloor>
                 else \<lceil>(of_int (units_remaining ?n) / of_int (row_units_per_case row) :: real)\<rceil>)
           else 0)"
  proof (cases "0 < row_units_per_case row")
    case True
    with reconcile_canonical_cases [OF b] show ?thesis
      by (simp only: py_int_quotient if_True)
  next
    case False
    with reconcile_canonical_cases [OF b] show ?thesis
      by (simp only: if_False)
  qed
next
  show "cases_remaining (deplete_item it c r)
        = (if 0 < units_per_case it
           then (if 0 \<le> units_remaining (deplete_item it c r)
                 then \<lfloor>(of_int (units_remaining (deplete_item it c r))
                       / of_int (units_per_case it) :: real)\<rfloor>
                 else \<lceil>(of_int (units_remaining (deplete_item it c r))
                       / of_int (units_per_case it) :: real)\<rceil>)
           else 0)"
  proof (cases "0 < units_per_case it")
    case True
    with deplete_item_cases [of it c r] show ?thesis
      by (simp only: py_int_quotient if_True)
  next
    case False
    with deplete_item_cases [of it c r] show ?thesis
      by (simp only: if_False)
  qed
qed

text \<open>
  The theorem at the example item with \<open>started\<close> edited to 120 (110 units, 4 cases) and
  at the item with 5 units depleted by 7 (-2 units, 0 cases).
\<close>

theorem cases_remaining_truncated_witness:
  "0 < row_units_per_case example_started_edit
   \<and> 0 \<le> units_remaining (reconcile_ledger_edit example_item example_started_edit)
   \<and> \<not> (row_cases_remaining example_started_edit \<noteq> cases_remaining example_item
        \<and> row_started example_started_edit = started example_item
        \<and> row_depleted example_started_edit = depleted example_item)
   \<and> cases_remaining (reconcile_ledger_edit example_item example_started_edit) = 4
   \<and> units_remaining (deplete_item example_low_item 1 example_label_recipe) = - 2
   \<and> cases_remaining (deplete_item example_low_item 1 example_label_recipe) = 0"
  using cases_remaining_truncated
      [of example_started_edit example_item example_low_item 1 example_label_recipe]
  by (simp add: example_item_def example_started_edit_def example_low_item_def
      example_label_recipe_def reconcile_ledger_edit_def depletion_eval)




end
